theory Spec2Isabelle
  imports Complex_Main
begin

section \<open>Vectors and scalar utilities (Common/Utility.h)\<close>

text \<open>
  A \<open>Vec3\<close> is a vector of three single-precision scalars. The functions of this section
  and the sampler only compare coefficients with constants and assign the constants 0 and
  1, which is exact on numbers, so a coefficient is modelled by its real value. The
  single-precision arithmetic of the Ward model has a section of its own, with rounding and
  the special values written out.
\<close>

datatype Vec3 = Vec3 (vec_x: real) (vec_y: real) (vec_z: real)

text \<open>
  \<open>fixDownwardDir\<close>: the pointer argument is updated in place; the model returns the new
  vector. \<open>normalize()\<close> belongs to the vector library, which is not among the sources; it
  is the parameter \<open>normalize_impl\<close>.
\<close>

definition fixDownwardDir :: "(Vec3 \<Rightarrow> Vec3) \<Rightarrow> Vec3 \<Rightarrow> Vec3" where
  "fixDownwardDir normalize_impl d =
     (if vec_z d < 0 then
        (let d1 = Vec3 (vec_x d) (vec_y d) 0 in
         if vec_x d1 = 0 \<and> vec_y d1 = 0 then Vec3 1 (vec_y d1) (vec_z d1)
         else normalize_impl d1)
      else d)"

text \<open>
  What the sign of the result needs from the library: a normalisation scales the vector by
  a positive number or leaves it as it is, so a coefficient that is zero stays zero.
\<close>

definition keeps_zero_z :: "(Vec3 \<Rightarrow> Vec3) \<Rightarrow> bool" where
  "keeps_zero_z normalize_impl = (\<forall>v. vec_z v = 0 \<longrightarrow> vec_z (normalize_impl v) = 0)"

text \<open>
  An instance of the parameter, used to run \<open>fixDownwardDir\<close>: division by the length in
  exact arithmetic. It is not the single-precision routine of the library.
\<close>

definition exact_normalize :: "Vec3 \<Rightarrow> Vec3" where
  "exact_normalize v =
     (let n2 = vec_x v * vec_x v + vec_y v * vec_y v + vec_z v * vec_z v
      in if 0 < n2 then Vec3 (vec_x v / sqrt n2) (vec_y v / sqrt n2) (vec_z v / sqrt n2)
         else v)"

definition isDownwardDir :: "Vec3 \<Rightarrow> bool" where
  "isDownwardDir dir = (vec_z dir < - 0.00001)"

text \<open>
  \<open>convertCoordinateSystem\<close>: the source system's \<open>toXyz\<close> followed by the
  destination system's \<open>fromXyz\<close>. The coordinate systems themselves are not among the
  sources; the two functions are parameters.
\<close>

definition convertCoordinateSystem ::
  "(real \<Rightarrow> real \<Rightarrow> real \<Rightarrow> real \<Rightarrow> Vec3 \<times> Vec3) \<Rightarrow> (Vec3 \<Rightarrow> Vec3 \<Rightarrow> real \<times> real \<times> real \<times> real) \<Rightarrow>
   real \<Rightarrow> real \<Rightarrow> real \<Rightarrow> real \<Rightarrow> real \<times> real \<times> real \<times> real" where
  "convertCoordinateSystem src_toXyz dest_fromXyz srcAngle0 srcAngle1 srcAngle2 srcAngle3 =
     (case src_toXyz srcAngle0 srcAngle1 srcAngle2 srcAngle3 of
        (inDir, outDir) \<Rightarrow> dest_fromXyz inDir outDir)"

section \<open>The two-axis sample grid (Brdf/SampleSet2D.cpp)\<close>

text \<open>
  Modelled from the spec: the enumeration of colour models is declared in a header that is
  not among the sources. The spec names three classes of colour model (monochromatic,
  RGB-like, full spectral); the code under study compares only against
  \<open>MONOCHROMATIC_MODEL\<close> and \<open>SPECTRAL_MODEL\<close>, so every other enumerator is
  represented by \<open>OTHER_MODEL k\<close>.
\<close>

datatype ColorModel = MONOCHROMATIC_MODEL | SPECTRAL_MODEL | OTHER_MODEL nat

text \<open>
  Failures of the code: a failed \<open>assert\<close> (debug build), the \<open>std::out_of_range\<close>
  thrown by \<open>std::vector::at\<close>, and the overflow of a multiplication of two \<open>int\<close>s
  (undefined behaviour in C++).
\<close>

datatype error = AssertionFailed | OutOfRange | SignedOverflow

definition INT_MAX :: int where
  "INT_MAX = 2147483647"

text \<open>
  A \<open>Spectrum\<close> and an angle array are dynamically sized arrays of scalars; \<open>spectra\<close>
  is a \<open>std::vector\<close> of spectra. The tag \<open>sourceType_\<close>, which no operation below reads
  or changes after construction, is left out of the record.
\<close>

type_synonym Spectrum = "real list"

record SampleSet2D =
  spectra :: "Spectrum list"
  thetaAngles :: "real list"
  phiAngles :: "real list"
  wavelengths :: "real list"
  colorModel :: ColorModel
  equalIntervalTheta :: bool
  equalIntervalPhi :: bool

text \<open>
  \<open>std::vector::resize\<close>: the first elements are kept, and a longer vector is filled
  up with default-constructed (empty) spectra.
\<close>

definition vector_resize :: "nat \<Rightarrow> Spectrum list \<Rightarrow> Spectrum list" where
  "vector_resize n cells = take n cells @ replicate (n - length cells) []"

text \<open>
  \<open>resize\<close> of a dynamically sized array of the vector library: nothing happens when the
  size is unchanged; otherwise the array is reallocated and its coefficients are not
  initialised. The indeterminate coefficients are read from the parameter \<open>junk\<close>.
  Throughout, \<open>mem tag\<close> supplies the indeterminate contents of one allocation: tag 0 is
  the theta array, 1 the phi array, 2 the wavelength array and \<open>3 + i\<close> the spectrum
  built for cell \<open>i\<close>.
\<close>

definition eigen_resize :: "(nat \<Rightarrow> real) \<Rightarrow> nat \<Rightarrow> real list \<Rightarrow> real list" where
  "eigen_resize junk n xs = (if length xs = n then xs else map junk [0..<n])"

text \<open>\<open>LinSpaced(size, low, high)\<close>: equally spaced values; a single value is \<open>high\<close>.\<close>

definition LinSpaced :: "nat \<Rightarrow> real \<Rightarrow> real \<Rightarrow> real list" where
  "LinSpaced n low high =
     (if n = 1 then [high]
      else map (\<lambda>i. low + real i * ((high - low) / real (n - 1))) [0..<n])"

text \<open>
  The loop \<open>for (i = 0; i < numSamples; ++i) spectra_.at(i) = mk i\<close>, by recursion on the
  number of iterations done; \<open>at\<close> throws when the index is not below the size.
\<close>

fun assign_spectra :: "(nat \<Rightarrow> Spectrum) \<Rightarrow> nat \<Rightarrow> Spectrum list \<Rightarrow> error + Spectrum list" where
  "assign_spectra mk 0 cells = Inr cells"
| "assign_spectra mk (Suc i) cells =
     (case assign_spectra mk i cells of
        Inl e \<Rightarrow> Inl e
      | Inr cs \<Rightarrow> if i < length cs then Inr (cs[i := mk i]) else Inl OutOfRange)"

definition updateAngleAttributes :: "(real list \<Rightarrow> bool) \<Rightarrow> SampleSet2D \<Rightarrow> SampleSet2D" where
  "updateAngleAttributes isEqualInterval s =
     s\<lparr> equalIntervalTheta := isEqualInterval (thetaAngles s),
        equalIntervalPhi := isEqualInterval (phiAngles s) \<rparr>"

text \<open>
  The constructor. \<open>isEqualInterval\<close> (a function of the library that is not among the
  sources) and the two upper bounds \<open>MAX_ANGLE0\<close>, \<open>MAX_ANGLE1\<close> of the spherical
  coordinate system are parameters. The member arrays start out empty. The argument
  \<open>colorModel\<close> is written \<open>colorModelArg\<close>, the member \<open>colorModel_\<close> is the field
  \<open>colorModel\<close>. \<open>updateAngleAttributes\<close> reads the two angle arrays only, which have
  their final contents when the constructor calls it.
\<close>

definition SampleSet2D_ctor ::
  "(real list \<Rightarrow> bool) \<Rightarrow> real \<Rightarrow> real \<Rightarrow> (nat \<Rightarrow> nat \<Rightarrow> real) \<Rightarrow>
   int \<Rightarrow> int \<Rightarrow> ColorModel \<Rightarrow> int \<Rightarrow> bool \<Rightarrow> error + SampleSet2D" where
  "SampleSet2D_ctor isEqualInterval MAX_ANGLE0 MAX_ANGLE1 mem
                    numTheta numPhi colorModelArg numWavelengths equalIntervalAngles =
     (if \<not> (numTheta > 0 \<and> numPhi > 0) then Inl AssertionFailed
      else if numTheta * numPhi > INT_MAX then Inl SignedOverflow
      else
        let numSamples = nat (numTheta * numPhi);
            spectra0 = vector_resize numSamples [];
            theta = (if equalIntervalAngles then LinSpaced (nat numTheta) 0 MAX_ANGLE0
                     else eigen_resize (mem 0) (nat numTheta) []);
            phi = (if equalIntervalAngles then LinSpaced (nat numPhi) 0 MAX_ANGLE1
                   else eigen_resize (mem 1) (nat numPhi) []);
            numWavelengths1 = (if colorModelArg = MONOCHROMATIC_MODEL then 1
                               else if colorModelArg \<noteq> SPECTRAL_MODEL then 3
                               else numWavelengths)
        in if \<not> numWavelengths1 > 0 then Inl AssertionFailed
           else
             (case assign_spectra (\<lambda>i. eigen_resize (mem (3 + i)) (nat numWavelengths1) [])
                                  numSamples spectra0 of
                Inl e \<Rightarrow> Inl e
              | Inr spectra1 \<Rightarrow>
                  let wl = eigen_resize (mem 2) (nat numWavelengths1) [];
                      wl1 = (if colorModelArg = MONOCHROMATIC_MODEL \<or> colorModelArg \<noteq> SPECTRAL_MODEL
                             then replicate (nat numWavelengths1) 0 else wl);
                      this = \<lparr> spectra = spectra1, thetaAngles = theta, phiAngles = phi,
                               wavelengths = wl1, colorModel = colorModelArg,
                               equalIntervalTheta = False, equalIntervalPhi = False \<rparr>
                  in Inr (if equalIntervalAngles then updateAngleAttributes isEqualInterval this
                          else this)))"

definition resizeAngles ::
  "(nat \<Rightarrow> nat \<Rightarrow> real) \<Rightarrow> int \<Rightarrow> int \<Rightarrow> SampleSet2D \<Rightarrow> error + SampleSet2D" where
  "resizeAngles mem numTheta numPhi s =
     (if \<not> (numTheta > 0 \<and> numPhi > 0) then Inl AssertionFailed
      else if numTheta * numPhi > INT_MAX then Inl SignedOverflow
      else
        let numSamples = nat (numTheta * numPhi)
        in Inr (s\<lparr> spectra := vector_resize numSamples (spectra s),
                   thetaAngles := eigen_resize (mem 0) (nat numTheta) (thetaAngles s),
                   phiAngles := eigen_resize (mem 1) (nat numPhi) (phiAngles s) \<rparr>))"

text \<open>
  In \<open>resizeWavelengths\<close> the number of samples is the product of the sizes of the two
  angle arrays, computed in the 64-bit index type of the vector library.
\<close>

definition resizeWavelengths ::
  "(nat \<Rightarrow> nat \<Rightarrow> real) \<Rightarrow> int \<Rightarrow> SampleSet2D \<Rightarrow> error + SampleSet2D" where
  "resizeWavelengths mem numWavelengths s =
     (if \<not> numWavelengths > 0 then Inl AssertionFailed
      else
        let numSamples = length (thetaAngles s) * length (phiAngles s)
        in case assign_spectra (\<lambda>i. eigen_resize (mem (3 + i)) (nat numWavelengths) [])
                               numSamples (spectra s) of
             Inl e \<Rightarrow> Inl e
           | Inr cs \<Rightarrow>
               Inr (s\<lparr> spectra := cs,
                        wavelengths := eigen_resize (mem 2) (nat numWavelengths) (wavelengths s) \<rparr>))"

definition clampAngles :: "real \<Rightarrow> real \<Rightarrow> SampleSet2D \<Rightarrow> SampleSet2D" where
  "clampAngles MAX_ANGLE0 MAX_ANGLE1 s =
     s\<lparr> thetaAngles := map (\<lambda>a. min a MAX_ANGLE0) (map (\<lambda>a. max a 0) (thetaAngles s)),
        phiAngles := map (\<lambda>a. min a MAX_ANGLE1) (map (\<lambda>a. max a 0) (phiAngles s)) \<rparr>"

text \<open>
  The relation between the cell array and the axes that the constructor establishes and
  that \<open>resizeAngles\<close>, \<open>resizeWavelengths\<close> and \<open>clampAngles\<close> keep.
\<close>

definition cells_match_axes :: "SampleSet2D \<Rightarrow> bool" where
  "cells_match_axes s = (length (spectra s) = length (thetaAngles s) * length (phiAngles s))"

text \<open>Concrete data used to run the operations.\<close>

definition zero_mem :: "nat \<Rightarrow> nat \<Rightarrow> real" where
  "zero_mem tag i = 0"

definition no_equal_interval :: "real list \<Rightarrow> bool" where
  "no_equal_interval xs = False"

definition populated_grid :: SampleSet2D where
  "populated_grid =
     \<lparr> spectra = [[5, 7]], thetaAngles = [0], phiAngles = [0], wavelengths = [400, 700],
       colorModel = SPECTRAL_MODEL, equalIntervalTheta = False, equalIntervalPhi = False \<rparr>"

section \<open>The sampler (Brdf/Sampler.h)\<close>

text \<open>
  The sampler is generic in a coordinate system and an interpolator; neither class is among
  the sources, nor are the full sample set and the \<open>Brdf\<close> class. They are parameters:
  a coordinate system is its two \<open>fromXyz\<close> overloads (three and four angles), an
  interpolator its \<open>getSpectrum\<close> and \<open>getValue\<close> overloads, a \<open>Brdf\<close> its sample set
  together with its own two \<open>fromXyz\<close> overloads, and \<open>isIsotropic\<close> is a predicate on
  the sample set. Output arguments are returned as results.
\<close>

record CoordSys =
  fromXyz3 :: "Vec3 \<Rightarrow> Vec3 \<Rightarrow> real \<times> real \<times> real"
  fromXyz4 :: "Vec3 \<Rightarrow> Vec3 \<Rightarrow> real \<times> real \<times> real \<times> real"

record 'ss Interpolator =
  getSpectrum3 :: "'ss \<Rightarrow> real \<Rightarrow> real \<Rightarrow> real \<Rightarrow> Spectrum"
  getSpectrum4 :: "'ss \<Rightarrow> real \<Rightarrow> real \<Rightarrow> real \<Rightarrow> real \<Rightarrow> Spectrum"
  getValue3 :: "'ss \<Rightarrow> real \<Rightarrow> real \<Rightarrow> real \<Rightarrow> int \<Rightarrow> real"
  getValue4 :: "'ss \<Rightarrow> real \<Rightarrow> real \<Rightarrow> real \<Rightarrow> real \<Rightarrow> int \<Rightarrow> real"

record 'ss Brdf =
  getSampleSet :: "'ss"
  brdf_fromXyz3 :: "Vec3 \<Rightarrow> Vec3 \<Rightarrow> real \<times> real \<times> real"
  brdf_fromXyz4 :: "Vec3 \<Rightarrow> Vec3 \<Rightarrow> real \<times> real \<times> real \<times> real"

record 'ss Interpolator2D =
  getSpectrum1 :: "'ss \<Rightarrow> real \<Rightarrow> Spectrum"
  getSpectrum2 :: "'ss \<Rightarrow> real \<Rightarrow> real \<Rightarrow> Spectrum"

definition Sampler_getSpectrum ::
  "('ss \<Rightarrow> bool) \<Rightarrow> CoordSys \<Rightarrow> 'ss Interpolator \<Rightarrow> 'ss \<Rightarrow> Vec3 \<Rightarrow> Vec3 \<Rightarrow> error + Spectrum" where
  "Sampler_getSpectrum isIsotropic cs ip samples inDir outDir =
     (if \<not> vec_z inDir \<ge> 0 then Inl AssertionFailed
      else if isIsotropic samples then
        (case fromXyz3 cs inDir outDir of
           (angle0, angle2, angle3) \<Rightarrow> Inr (getSpectrum3 ip samples angle0 angle2 angle3))
      else
        (case fromXyz4 cs inDir outDir of
           (angle0, angle1, angle2, angle3) \<Rightarrow>
             Inr (getSpectrum4 ip samples angle0 angle1 angle2 angle3)))"

definition Sampler_getValue ::
  "('ss \<Rightarrow> bool) \<Rightarrow> CoordSys \<Rightarrow> 'ss Interpolator \<Rightarrow> 'ss \<Rightarrow> Vec3 \<Rightarrow> Vec3 \<Rightarrow> int \<Rightarrow> error + real" where
  "Sampler_getValue isIsotropic cs ip samples inDir outDir wavelengthIndex =
     (if \<not> vec_z inDir \<ge> 0 then Inl AssertionFailed
      else if isIsotropic samples then
        (case fromXyz3 cs inDir outDir of
           (angle0, angle2, angle3) \<Rightarrow>
             Inr (getValue3 ip samples angle0 angle2 angle3 wavelengthIndex))
      else
        (case fromXyz4 cs inDir outDir of
           (angle0, angle1, angle2, angle3) \<Rightarrow>
             Inr (getValue4 ip samples angle0 angle1 angle2 angle3 wavelengthIndex)))"

definition Sampler_getSpectrum_Brdf ::
  "('ss \<Rightarrow> bool) \<Rightarrow> 'ss Interpolator \<Rightarrow> 'ss Brdf \<Rightarrow> Vec3 \<Rightarrow> Vec3 \<Rightarrow> error + Spectrum" where
  "Sampler_getSpectrum_Brdf isIsotropic ip brdf inDir outDir =
     (if \<not> vec_z inDir \<ge> 0 then Inl AssertionFailed
      else
        let ss = getSampleSet brdf
        in if isIsotropic ss then
             (case brdf_fromXyz3 brdf inDir outDir of
                (angle0, angle2, angle3) \<Rightarrow> Inr (getSpectrum3 ip ss angle0 angle2 angle3))
           else
             (case brdf_fromXyz4 brdf inDir outDir of
                (angle0, angle1, angle2, angle3) \<Rightarrow>
                  Inr (getSpectrum4 ip ss angle0 angle1 angle2 angle3)))"

definition Sampler_getValue_Brdf ::
  "('ss \<Rightarrow> bool) \<Rightarrow> 'ss Interpolator \<Rightarrow> 'ss Brdf \<Rightarrow> Vec3 \<Rightarrow> Vec3 \<Rightarrow> int \<Rightarrow> error + real" where
  "Sampler_getValue_Brdf isIsotropic ip brdf inDir outDir wavelengthIndex =
     (if \<not> vec_z inDir \<ge> 0 then Inl AssertionFailed
      else
        let ss = getSampleSet brdf
        in if isIsotropic ss then
             (case brdf_fromXyz3 brdf inDir outDir of
                (angle0, angle2, angle3) \<Rightarrow>
                  Inr (getValue3 ip ss angle0 angle2 angle3 wavelengthIndex))
           else
             (case brdf_fromXyz4 brdf inDir outDir of
                (angle0, angle1, angle2, angle3) \<Rightarrow>
                  Inr (getValue4 ip ss angle0 angle1 angle2 angle3 wavelengthIndex)))"

text \<open>
  The overload for a two-axis grid. It has no assertion and no other failing path, so it
  returns the spectrum itself. \<open>std::acos\<close> is the real arc cosine \<open>arccos\<close> (for an
  argument in \<open>[-1, 1]\<close>, where both are defined); \<open>sphFromXyz\<close> stands for
  \<open>SphericalCoordinateSystem::fromXyz\<close> of one direction, which is not among the sources.
\<close>

definition Sampler_getSpectrum_2D ::
  "('ss \<Rightarrow> bool) \<Rightarrow> (Vec3 \<Rightarrow> real \<times> real) \<Rightarrow> 'ss Interpolator2D \<Rightarrow> 'ss \<Rightarrow> Vec3 \<Rightarrow> Spectrum" where
  "Sampler_getSpectrum_2D isIsotropic sphFromXyz ip ss2 inDir =
     (if isIsotropic ss2 then
        (let inTheta = arccos (vec_z inDir) in getSpectrum1 ip ss2 inTheta)
      else
        (case sphFromXyz inDir of (inTheta, inPhi) \<Rightarrow> getSpectrum2 ip ss2 inTheta inPhi))"

text \<open>
  \<open>SampleSet2D::getSpectrum\<close> calls the sampler with the linear interpolator, here the
  parameter \<open>linearInterpolator\<close>.
\<close>

definition SampleSet2D_getSpectrum ::
  "(SampleSet2D \<Rightarrow> bool) \<Rightarrow> (Vec3 \<Rightarrow> real \<times> real) \<Rightarrow> SampleSet2D Interpolator2D \<Rightarrow>
   SampleSet2D \<Rightarrow> Vec3 \<Rightarrow> Spectrum" where
  "SampleSet2D_getSpectrum isIsotropic sphFromXyz linearInterpolator this inDir =
     Sampler_getSpectrum_2D isIsotropic sphFromXyz linearInterpolator this inDir"

text \<open>
  The dispatch rule as the specification words it: an isotropic grid is queried through the
  reduced three-angle conversion and the three-angle interpolation, any other grid through
  the four-angle conversion and the four-angle interpolation.
\<close>

definition isotropy_dispatch ::
  "bool \<Rightarrow> (Vec3 \<Rightarrow> Vec3 \<Rightarrow> real \<times> real \<times> real) \<Rightarrow> (Vec3 \<Rightarrow> Vec3 \<Rightarrow> real \<times> real \<times> real \<times> real) \<Rightarrow>
   (real \<Rightarrow> real \<Rightarrow> real \<Rightarrow> 'r) \<Rightarrow> (real \<Rightarrow> real \<Rightarrow> real \<Rightarrow> real \<Rightarrow> 'r) \<Rightarrow> Vec3 \<Rightarrow> Vec3 \<Rightarrow> 'r" where
  "isotropy_dispatch isotropic conv3 conv4 interp3 interp4 inDir outDir =
     (if isotropic then
        interp3 (fst (conv3 inDir outDir)) (fst (snd (conv3 inDir outDir)))
                (snd (snd (conv3 inDir outDir)))
      else
        interp4 (fst (conv4 inDir outDir)) (fst (snd (conv4 inDir outDir)))
                (fst (snd (snd (conv4 inDir outDir)))) (snd (snd (snd (conv4 inDir outDir)))))"

text \<open>Concrete instances used to run the sampler.\<close>

definition demo_coordsys :: CoordSys where
  "demo_coordsys =
     \<lparr> fromXyz3 = (\<lambda>i out. (vec_z i, vec_z out, vec_x out)),
       fromXyz4 = (\<lambda>i out. (vec_z i, vec_x i, vec_z out, vec_x out)) \<rparr>"

definition demo_interpolator :: "bool Interpolator" where
  "demo_interpolator =
     \<lparr> getSpectrum3 = (\<lambda>ss a0 a2 a3. [a0, a2, a3]),
       getSpectrum4 = (\<lambda>ss a0 a1 a2 a3. [a0, a1, a2, a3]),
       getValue3 = (\<lambda>ss a0 a2 a3 w. a0 + a2 + a3),
       getValue4 = (\<lambda>ss a0 a1 a2 a3 w. a0 + a1 + a2 + a3) \<rparr>"

definition demo_brdf :: "bool \<Rightarrow> bool Brdf" where
  "demo_brdf isotropic =
     \<lparr> getSampleSet = isotropic,
       brdf_fromXyz3 = fromXyz3 demo_coordsys,
       brdf_fromXyz4 = fromXyz4 demo_coordsys \<rparr>"

definition demo_isIsotropic :: "bool \<Rightarrow> bool" where
  "demo_isIsotropic ss = ss"

definition demo_sphFromXyz :: "Vec3 \<Rightarrow> real \<times> real" where
  "demo_sphFromXyz d = (vec_z d, vec_x d)"

definition demo_interpolator2D :: "bool Interpolator2D" where
  "demo_interpolator2D =
     \<lparr> getSpectrum1 = (\<lambda>ss theta. [theta]),
       getSpectrum2 = (\<lambda>ss theta phi. [theta, phi]) \<rparr>"

section \<open>The Ward anisotropic model (ReflectanceModel/WardAnisotropic.h)\<close>


















section \<open>Properties of the direction utilities\<close>

lemma keeps_zero_z_exact_normalize: "keeps_zero_z exact_normalize"
  by (simp add: keeps_zero_z_def exact_normalize_def Let_def)

lemma exact_normalize_2: "exact_normalize (Vec3 2 0 0) = Vec3 1 0 0"
proof -
  have "sqrt 4 = 2" using real_sqrt_abs [of 2] by simp
  then show ?thesis by (simp add: exact_normalize_def Let_def)
qed

text \<open>
  C9. A vector with \<open>z \<ge> 0\<close> is returned unchanged; a vector with \<open>z < 0\<close> that has a
  non-zero x or y gets \<open>z = 0\<close> and is then normalised by the library; the vector with
  \<open>x = 0\<close>, \<open>y = 0\<close>, \<open>z < 0\<close> becomes \<open>(1, 0, 0)\<close>. In each case the z-component of
  the result is non-negative, given that the library's normalisation leaves a zero
  coefficient zero.
\<close>

theorem fixDownwardDir_spec:
  "(0 \<le> vec_z d \<longrightarrow> fixDownwardDir normalize_impl d = d)
   \<and> (vec_z d < 0 \<and> \<not> (vec_x d = 0 \<and> vec_y d = 0) \<longrightarrow>
        fixDownwardDir normalize_impl d = normalize_impl (Vec3 (vec_x d) (vec_y d) 0))
   \<and> (vec_z d < 0 \<and> vec_x d = 0 \<and> vec_y d = 0 \<longrightarrow>
        fixDownwardDir normalize_impl d = Vec3 1 0 0)
   \<and> (keeps_zero_z normalize_impl \<longrightarrow> 0 \<le> vec_z (fixDownwardDir normalize_impl d))"
proof (intro conjI impI)
  assume "0 \<le> vec_z d"
  then show "fixDownwardDir normalize_impl d = d"
    by (simp add: fixDownwardDir_def)
next
  assume "vec_z d < 0 \<and> \<not> (vec_x d = 0 \<and> vec_y d = 0)"
  then show "fixDownwardDir normalize_impl d = normalize_impl (Vec3 (vec_x d) (vec_y d) 0)"
    by (auto simp: fixDownwardDir_def Let_def)
next
  assume "vec_z d < 0 \<and> vec_x d = 0 \<and> vec_y d = 0"
  then show "fixDownwardDir normalize_impl d = Vec3 1 0 0"
    by (simp add: fixDownwardDir_def)
next
  assume k: "keeps_zero_z normalize_impl"
  have "vec_z (normalize_impl (Vec3 (vec_x d) (vec_y d) 0)) = 0"
    using k by (simp add: keeps_zero_z_def)
  then show "0 \<le> vec_z (fixDownwardDir normalize_impl d)"
    by (simp add: fixDownwardDir_def Let_def)
qed

theorem fixDownwardDir_spec_witness:
  "keeps_zero_z exact_normalize
   \<and> fixDownwardDir exact_normalize (Vec3 1 2 3) = Vec3 1 2 3
   \<and> fixDownwardDir exact_normalize (Vec3 2 0 (- 1)) = Vec3 1 0 0
   \<and> fixDownwardDir exact_normalize (Vec3 0 0 (- 1)) = Vec3 1 0 0
   \<and> 0 \<le> vec_z (fixDownwardDir exact_normalize (Vec3 2 0 (- 1)))"
proof -
  have a: "fixDownwardDir exact_normalize (Vec3 1 2 3) = Vec3 1 2 3"
    using fixDownwardDir_spec [of "Vec3 1 2 3" exact_normalize] by simp
  have b: "fixDownwardDir exact_normalize (Vec3 2 0 (- 1)) = Vec3 1 0 0"
    using fixDownwardDir_spec [of "Vec3 2 0 (- 1)" exact_normalize] exact_normalize_2 by simp
  have c: "fixDownwardDir exact_normalize (Vec3 0 0 (- 1)) = Vec3 1 0 0"
    using fixDownwardDir_spec [of "Vec3 0 0 (- 1)" exact_normalize] by simp
  have d: "0 \<le> vec_z (fixDownwardDir exact_normalize (Vec3 2 0 (- 1)))"
    using fixDownwardDir_spec [of "Vec3 2 0 (- 1)" exact_normalize] keeps_zero_z_exact_normalize
    by blast
  from a b c d keeps_zero_z_exact_normalize show ?thesis by simp
qed

text \<open>
  C10. \<open>isDownwardDir\<close> holds exactly when the z-component is strictly below
  \<open>-0.00001\<close>; a direction whose z-component lies in the band from \<open>-0.00001\<close> up to zero
  is not classified as facing the back of the surface.
\<close>

theorem isDownwardDir_iff:
  "(isDownwardDir dir \<longleftrightarrow> vec_z dir < - (1 / 100000))
   \<and> (- (1 / 100000) \<le> vec_z dir \<longrightarrow> \<not> isDownwardDir dir)"
  by (simp add: isDownwardDir_def)

theorem isDownwardDir_iff_witness:
  "\<not> isDownwardDir (Vec3 0 1 (- (1 / 200000))) \<and> isDownwardDir (Vec3 0 1 (- (1 / 50000)))"
  using isDownwardDir_iff [of "Vec3 0 1 (- (1 / 200000))"]
        isDownwardDir_iff [of "Vec3 0 1 (- (1 / 50000))"]
  by simp

section \<open>Properties of the two-axis sample grid\<close>

lemma length_vector_resize: "length (vector_resize n cells) = n"
  by (simp add: vector_resize_def)

lemma length_eigen_resize: "length (eigen_resize junk n xs) = n"
  by (simp add: eigen_resize_def)

lemma length_LinSpaced: "length (LinSpaced n low high) = n"
  by (simp add: LinSpaced_def)

lemma assign_spectra_eq:
  "assign_spectra mk n cells =
     (if n \<le> length cells then Inr (map mk [0..<n] @ drop n cells) else Inl OutOfRange)"
proof (induction n)
  case 0
  show ?case by simp
next
  case (Suc n)
  show ?case
  proof (cases "Suc n \<le> length cells")
    case True
    then have n: "n < length cells" by simp
    have d: "drop n cells = cells ! n # drop (Suc n) cells"
      using n by (simp add: Cons_nth_drop_Suc)
    have "(map mk [0..<n] @ drop n cells)[n := mk n] = map mk [0..<n] @ (drop n cells)[0 := mk n]"
      by (simp add: list_update_append)
    also have "\<dots> = map mk [0..<n] @ mk n # drop (Suc n) cells"
      by (subst d) simp
    finally have "(map mk [0..<n] @ drop n cells)[n := mk n] = map mk [0..<Suc n] @ drop (Suc n) cells"
      by simp
    with Suc n True show ?thesis by simp
  next
    case False
    with Suc show ?thesis by (auto split: sum.splits)
  qed
qed


lemma assign_spectra_all:
  "assign_spectra mk (length cells) cells = Inr (map mk [0..<length cells])"
  by (simp add: assign_spectra_eq)

text \<open>
  The constructor establishes \<open>cells_match_axes\<close> and the mutating operations keep it, so
  it holds of every grid that these operations produce.
\<close>

lemma ctor_cells_match_axes:
  assumes "SampleSet2D_ctor isEq m0 m1 mem nt np cm nw eq = Inr s"
  shows "cells_match_axes s"
proof -
  have pos: "0 < nt" "0 < np"
    using assms by (auto simp: SampleSet2D_ctor_def split: if_splits)
  have "nat (nt * np) = nat nt * nat np"
    using pos by (simp add: nat_mult_distrib)
  then show ?thesis
    using assms
    by (auto simp: SampleSet2D_ctor_def Let_def assign_spectra_eq length_vector_resize
          length_eigen_resize length_LinSpaced cells_match_axes_def updateAngleAttributes_def
          split: if_splits)
qed

lemma resizeAngles_cells_match_axes:
  assumes "resizeAngles mem nt np s = Inr s'"
  shows "cells_match_axes s'"
proof -
  have pos: "0 < nt" "0 < np"
    using assms by (auto simp: resizeAngles_def split: if_splits)
  have "nat (nt * np) = nat nt * nat np"
    using pos by (simp add: nat_mult_distrib)
  then show ?thesis
    using assms
    by (auto simp: resizeAngles_def Let_def length_vector_resize length_eigen_resize
          cells_match_axes_def split: if_splits)
qed

lemma clampAngles_cells_match_axes:
  "cells_match_axes s \<Longrightarrow> cells_match_axes (clampAngles m0 m1 s)"
  by (simp add: cells_match_axes_def clampAngles_def)

lemma updateAngleAttributes_cells_match_axes:
  "cells_match_axes s \<Longrightarrow> cells_match_axes (updateAngleAttributes isEq s)"
  by (simp add: cells_match_axes_def updateAngleAttributes_def)

text \<open>
  C3. For every grid whose cell array matches its axes (every grid built by the constructor
  and the operations above) and every \<open>n > 0\<close>, \<open>resizeWavelengths n\<close> returns normally;
  afterwards every cell's spectrum has length \<open>n\<close>, the wavelength array has length \<open>n\<close>,
  and the theta and phi arrays are what they were, values included.
\<close>

theorem resizeWavelengths_lengths:
  assumes inv: "cells_match_axes s" and n: "0 < n"
  shows "\<exists>s'. resizeWavelengths mem n s = Inr s'
           \<and> (\<forall>sp \<in> set (spectra s'). length sp = nat n)
           \<and> length (wavelengths s') = nat n
           \<and> thetaAngles s' = thetaAngles s
           \<and> phiAngles s' = phiAngles s
           \<and> length (spectra s') = length (spectra s)
           \<and> cells_match_axes s'"
proof -
  let ?mk = "\<lambda>i. eigen_resize (mem (3 + i)) (nat n) []"
  let ?s' = "s\<lparr> spectra := map ?mk [0..<length (spectra s)],
                 wavelengths := eigen_resize (mem 2) (nat n) (wavelengths s) \<rparr>"
  have loop: "assign_spectra ?mk (length (thetaAngles s) * length (phiAngles s)) (spectra s)
                = Inr (map ?mk [0..<length (spectra s)])"
    using inv assign_spectra_all [of ?mk "spectra s"] by (simp add: cells_match_axes_def)
  have run: "resizeWavelengths mem n s = Inr ?s'"
    using n loop by (simp add: resizeWavelengths_def Let_def)
  have cells: "\<forall>sp \<in> set (spectra ?s'). length sp = nat n"
    by (auto simp: length_eigen_resize)
  have wl: "length (wavelengths ?s') = nat n"
    by (simp add: length_eigen_resize)
  have inv': "cells_match_axes ?s'"
    using inv by (simp add: cells_match_axes_def)
  from run cells wl inv' show ?thesis by simp
qed

theorem resizeWavelengths_lengths_witness:
  "cells_match_axes populated_grid \<and> (0::int) < 3
   \<and> (\<exists>s'. resizeWavelengths zero_mem 3 populated_grid = Inr s'
          \<and> (\<forall>sp \<in> set (spectra s'). length sp = nat 3)
          \<and> length (wavelengths s') = nat 3
          \<and> thetaAngles s' = [0] \<and> phiAngles s' = [0])"
proof -
  have inv: "cells_match_axes populated_grid"
    by (simp add: cells_match_axes_def populated_grid_def)
  have th: "thetaAngles populated_grid = [0]" "phiAngles populated_grid = [0]"
    by (simp_all add: populated_grid_def)
  show ?thesis
    using resizeWavelengths_lengths [OF inv, of 3 zero_mem] inv th by auto
qed

text \<open>
  C6. The constructor returns normally when both axis lengths are positive, their product
  is representable and, for a spectral grid, the requested wavelength count is positive.
  Whenever it returns a grid, the colour model fixes the wavelength count: 1 for a
  monochromatic grid, 3 for every grid that is neither monochromatic nor spectral, and the
  requested count for a spectral grid; the wavelength array and the spectrum of every cell
  have that length.
\<close>

theorem SampleSet2D_ctor_wavelength_count:
  "(0 < numTheta \<and> 0 < numPhi \<and> numTheta * numPhi \<le> INT_MAX
      \<and> (cm = SPECTRAL_MODEL \<longrightarrow> 0 < numWavelengths)
     \<longrightarrow> (\<exists>s. SampleSet2D_ctor isEq m0 m1 mem numTheta numPhi cm numWavelengths eq = Inr s))
   \<and> (\<forall>s. SampleSet2D_ctor isEq m0 m1 mem numTheta numPhi cm numWavelengths eq = Inr s \<longrightarrow>
          (cm = MONOCHROMATIC_MODEL \<longrightarrow> length (wavelengths s) = 1)
        \<and> (cm \<noteq> MONOCHROMATIC_MODEL \<and> cm \<noteq> SPECTRAL_MODEL \<longrightarrow> length (wavelengths s) = 3)
        \<and> (cm = SPECTRAL_MODEL \<longrightarrow> 0 < numWavelengths \<and> length (wavelengths s) = nat numWavelengths)
        \<and> (\<forall>sp \<in> set (spectra s). length sp = length (wavelengths s))
        \<and> length (spectra s) = nat (numTheta * numPhi)
        \<and> colorModel s = cm)"
proof (intro conjI impI allI)
  assume pre: "0 < numTheta \<and> 0 < numPhi \<and> numTheta * numPhi \<le> INT_MAX
      \<and> (cm = SPECTRAL_MODEL \<longrightarrow> 0 < numWavelengths)"
  then show "\<exists>s. SampleSet2D_ctor isEq m0 m1 mem numTheta numPhi cm numWavelengths eq = Inr s"
    by (simp add: SampleSet2D_ctor_def Let_def assign_spectra_eq length_vector_resize)
next
  fix s
  assume run: "SampleSet2D_ctor isEq m0 m1 mem numTheta numPhi cm numWavelengths eq = Inr s"
  {
    assume "cm = MONOCHROMATIC_MODEL"
    with run show "length (wavelengths s) = 1"
      by (auto simp: SampleSet2D_ctor_def Let_def assign_spectra_eq length_vector_resize
            updateAngleAttributes_def split: if_splits)
  next
    assume "cm \<noteq> MONOCHROMATIC_MODEL \<and> cm \<noteq> SPECTRAL_MODEL"
    with run show "length (wavelengths s) = 3"
      by (auto simp: SampleSet2D_ctor_def Let_def assign_spectra_eq length_vector_resize
            updateAngleAttributes_def split: if_splits)
  next
    assume "cm = SPECTRAL_MODEL"
    with run show "0 < numWavelengths"
      by (auto simp: SampleSet2D_ctor_def Let_def split: if_splits)
  next
    assume "cm = SPECTRAL_MODEL"
    with run show "length (wavelengths s) = nat numWavelengths"
      by (auto simp: SampleSet2D_ctor_def Let_def assign_spectra_eq length_vector_resize
            length_eigen_resize updateAngleAttributes_def split: if_splits)
  next
    from run show "\<forall>sp \<in> set (spectra s). length sp = length (wavelengths s)"
      by (auto simp: SampleSet2D_ctor_def Let_def assign_spectra_eq length_vector_resize
            length_eigen_resize updateAngleAttributes_def split: if_splits)
  next
    from run show "length (spectra s) = nat (numTheta * numPhi)"
      by (auto simp: SampleSet2D_ctor_def Let_def assign_spectra_eq length_vector_resize
            updateAngleAttributes_def split: if_splits)
  next
    from run show "colorModel s = cm"
      by (auto simp: SampleSet2D_ctor_def Let_def assign_spectra_eq length_vector_resize
            updateAngleAttributes_def split: if_splits)
  }
qed


theorem SampleSet2D_ctor_wavelength_count_witness:
  "(\<exists>s. SampleSet2D_ctor no_equal_interval 1 2 zero_mem 2 3 MONOCHROMATIC_MODEL 7 False = Inr s
        \<and> length (wavelengths s) = 1 \<and> (\<forall>sp \<in> set (spectra s). length sp = 1)
        \<and> length (spectra s) = 6)
   \<and> (\<exists>s. SampleSet2D_ctor no_equal_interval 1 2 zero_mem 2 3 (OTHER_MODEL 0) 7 True = Inr s
        \<and> length (wavelengths s) = 3 \<and> (\<forall>sp \<in> set (spectra s). length sp = 3)
        \<and> length (spectra s) = 6)
   \<and> (\<exists>s. SampleSet2D_ctor no_equal_interval 1 2 zero_mem 2 3 SPECTRAL_MODEL 7 False = Inr s
        \<and> length (wavelengths s) = 7 \<and> (\<forall>sp \<in> set (spectra s). length sp = 7)
        \<and> length (spectra s) = 6)"
proof (intro conjI)
  note t = SampleSet2D_ctor_wavelength_count
             [of 2 3 MONOCHROMATIC_MODEL 7 no_equal_interval 1 2 zero_mem False]
  from t obtain s where
    "SampleSet2D_ctor no_equal_interval 1 2 zero_mem 2 3 MONOCHROMATIC_MODEL 7 False = Inr s"
    by (auto simp: INT_MAX_def)
  with t show "\<exists>s. SampleSet2D_ctor no_equal_interval 1 2 zero_mem 2 3 MONOCHROMATIC_MODEL 7 False = Inr s
        \<and> length (wavelengths s) = 1 \<and> (\<forall>sp \<in> set (spectra s). length sp = 1)
        \<and> length (spectra s) = 6"
    by auto
next
  note t = SampleSet2D_ctor_wavelength_count
             [of 2 3 "OTHER_MODEL 0" 7 no_equal_interval 1 2 zero_mem True]
  from t obtain s where
    "SampleSet2D_ctor no_equal_interval 1 2 zero_mem 2 3 (OTHER_MODEL 0) 7 True = Inr s"
    by (auto simp: INT_MAX_def)
  with t show "\<exists>s. SampleSet2D_ctor no_equal_interval 1 2 zero_mem 2 3 (OTHER_MODEL 0) 7 True = Inr s
        \<and> length (wavelengths s) = 3 \<and> (\<forall>sp \<in> set (spectra s). length sp = 3)
        \<and> length (spectra s) = 6"
    by auto
next
  note t = SampleSet2D_ctor_wavelength_count
             [of 2 3 SPECTRAL_MODEL 7 no_equal_interval 1 2 zero_mem False]
  from t obtain s where
    "SampleSet2D_ctor no_equal_interval 1 2 zero_mem 2 3 SPECTRAL_MODEL 7 False = Inr s"
    by (auto simp: INT_MAX_def)
  with t show "\<exists>s. SampleSet2D_ctor no_equal_interval 1 2 zero_mem 2 3 SPECTRAL_MODEL 7 False = Inr s
        \<and> length (wavelengths s) = 7 \<and> (\<forall>sp \<in> set (spectra s). length sp = 7)
        \<and> length (spectra s) = 6"
    by auto
qed

text \<open>
  C7, as stated, fails: \<open>resizeAngles\<close> resizes the \<open>std::vector\<close> of cells, which keeps
  the leading cells. Resizing the populated one-cell grid to two by one leaves the spectrum
  \<open>[5, 7]\<close> in cell 0.
\<close>

theorem resizeAngles_retains_counterexample:
  "spectra populated_grid = [[5, 7]]
   \<and> resizeAngles zero_mem 2 1 populated_grid
       = Inr (populated_grid\<lparr> spectra := [[5, 7], []], thetaAngles := [0, 0] \<rparr>)"
  by (simp add: resizeAngles_def populated_grid_def vector_resize_def eigen_resize_def
        zero_mem_def INT_MAX_def Let_def eval_nat_numeral)

text \<open>
  C7, amended. For positive \<open>numTheta\<close> and \<open>numPhi\<close> with a representable product,
  \<open>resizeAngles\<close> returns normally; afterwards there are \<open>numTheta * numPhi\<close> cells, the
  theta axis has length \<open>numTheta\<close> and the phi axis length \<open>numPhi\<close>. Every cell whose
  index existed before and still exists keeps its spectrum, and every added cell holds the
  empty spectrum.
\<close>

theorem resizeAngles_sizes:
  assumes "0 < numTheta" and "0 < numPhi" and "numTheta * numPhi \<le> INT_MAX"
  shows "\<exists>s'. resizeAngles mem numTheta numPhi s = Inr s'
           \<and> length (spectra s') = nat (numTheta * numPhi)
           \<and> length (thetaAngles s') = nat numTheta
           \<and> length (phiAngles s') = nat numPhi
           \<and> (\<forall>i. i < length (spectra s) \<and> i < nat (numTheta * numPhi) \<longrightarrow>
                  spectra s' ! i = spectra s ! i)
           \<and> (\<forall>i. length (spectra s) \<le> i \<and> i < nat (numTheta * numPhi) \<longrightarrow>
                  spectra s' ! i = [])"
proof -
  let ?n = "nat (numTheta * numPhi)"
  let ?s' = "s\<lparr> spectra := vector_resize ?n (spectra s),
                 thetaAngles := eigen_resize (mem 0) (nat numTheta) (thetaAngles s),
                 phiAngles := eigen_resize (mem 1) (nat numPhi) (phiAngles s) \<rparr>"
  have run: "resizeAngles mem numTheta numPhi s = Inr ?s'"
    using assms by (simp add: resizeAngles_def Let_def)
  have keep: "\<forall>i. i < length (spectra s) \<and> i < ?n \<longrightarrow> spectra ?s' ! i = spectra s ! i"
    by (simp add: vector_resize_def nth_append)
  have new: "\<forall>i. length (spectra s) \<le> i \<and> i < ?n \<longrightarrow> spectra ?s' ! i = []"
    by (auto simp: vector_resize_def nth_append)
  from run keep new show ?thesis
    by (simp add: length_vector_resize length_eigen_resize)
qed

theorem resizeAngles_sizes_witness:
  "(0::int) < 2 \<and> (0::int) < 1 \<and> (2::int) * 1 \<le> INT_MAX
   \<and> (\<exists>s'. resizeAngles zero_mem 2 1 populated_grid = Inr s'
          \<and> length (spectra s') = 2 \<and> length (thetaAngles s') = 2 \<and> length (phiAngles s') = 1
          \<and> spectra s' ! 0 = [5, 7] \<and> spectra s' ! 1 = [])"
proof -
  have len: "length (spectra populated_grid) = 1" "spectra populated_grid ! 0 = [5, 7]"
    by (simp_all add: populated_grid_def)
  have pre: "(0::int) < 2" "(0::int) < 1" "(2::int) * 1 \<le> INT_MAX"
    by (simp_all add: INT_MAX_def)
  from resizeAngles_sizes [OF pre, of zero_mem populated_grid]
  obtain s' where s': "resizeAngles zero_mem 2 1 populated_grid = Inr s'"
      "length (spectra s') = nat (2 * 1)" "length (thetaAngles s') = nat 2"
      "length (phiAngles s') = nat 1"
      "\<forall>i. i < length (spectra populated_grid) \<and> i < nat (2 * 1) \<longrightarrow>
             spectra s' ! i = spectra populated_grid ! i"
      "\<forall>i. length (spectra populated_grid) \<le> i \<and> i < nat (2 * 1) \<longrightarrow> spectra s' ! i = []"
    by blast
  from s'(5) len have c0: "spectra s' ! 0 = [5, 7]" by simp
  from s'(6) len have c1: "spectra s' ! 1 = []" by simp
  from pre s' c0 c1 show ?thesis by simp
qed

section \<open>Properties of the sampler\<close>

text \<open>
  C1. The four queries on a full sample set (\<open>getSpectrum\<close> and \<open>getValue\<close>, for a
  coordinate system given as template argument and for a \<open>Brdf\<close>) all evaluate the same
  rule \<open>isotropy_dispatch\<close> on the isotropy flag of the grid: the three-angle conversion
  and three-angle interpolation when the flag is set, the four-angle conversion and
  four-angle interpolation otherwise (after the assertion on \<open>inDir\<close>).
\<close>

theorem Sampler_isotropy_dispatch:
  "Sampler_getSpectrum isIso cs ip samples inDir outDir =
     (if 0 \<le> vec_z inDir then
        Inr (isotropy_dispatch (isIso samples) (fromXyz3 cs) (fromXyz4 cs)
               (getSpectrum3 ip samples) (getSpectrum4 ip samples) inDir outDir)
      else Inl AssertionFailed)
   \<and> Sampler_getValue isIso cs ip samples inDir outDir w =
     (if 0 \<le> vec_z inDir then
        Inr (isotropy_dispatch (isIso samples) (fromXyz3 cs) (fromXyz4 cs)
               (\<lambda>a0 a2 a3. getValue3 ip samples a0 a2 a3 w)
               (\<lambda>a0 a1 a2 a3. getValue4 ip samples a0 a1 a2 a3 w) inDir outDir)
      else Inl AssertionFailed)
   \<and> Sampler_getSpectrum_Brdf isIso ip brdf inDir outDir =
     (if 0 \<le> vec_z inDir then
        Inr (isotropy_dispatch (isIso (getSampleSet brdf)) (brdf_fromXyz3 brdf) (brdf_fromXyz4 brdf)
               (getSpectrum3 ip (getSampleSet brdf)) (getSpectrum4 ip (getSampleSet brdf))
               inDir outDir)
      else Inl AssertionFailed)
   \<and> Sampler_getValue_Brdf isIso ip brdf inDir outDir w =
     (if 0 \<le> vec_z inDir then
        Inr (isotropy_dispatch (isIso (getSampleSet brdf)) (brdf_fromXyz3 brdf) (brdf_fromXyz4 brdf)
               (\<lambda>a0 a2 a3. getValue3 ip (getSampleSet brdf) a0 a2 a3 w)
               (\<lambda>a0 a1 a2 a3. getValue4 ip (getSampleSet brdf) a0 a1 a2 a3 w) inDir outDir)
      else Inl AssertionFailed)"
proof (intro conjI)
  show "Sampler_getSpectrum isIso cs ip samples inDir outDir =
     (if 0 \<le> vec_z inDir then
        Inr (isotropy_dispatch (isIso samples) (fromXyz3 cs) (fromXyz4 cs)
               (getSpectrum3 ip samples) (getSpectrum4 ip samples) inDir outDir)
      else Inl AssertionFailed)"
    by (simp add: Sampler_getSpectrum_def isotropy_dispatch_def split: prod.splits)
  show "Sampler_getValue isIso cs ip samples inDir outDir w =
     (if 0 \<le> vec_z inDir then
        Inr (isotropy_dispatch (isIso samples) (fromXyz3 cs) (fromXyz4 cs)
               (\<lambda>a0 a2 a3. getValue3 ip samples a0 a2 a3 w)
               (\<lambda>a0 a1 a2 a3. getValue4 ip samples a0 a1 a2 a3 w) inDir outDir)
      else Inl AssertionFailed)"
    by (simp add: Sampler_getValue_def isotropy_dispatch_def split: prod.splits)
  show "Sampler_getSpectrum_Brdf isIso ip brdf inDir outDir =
     (if 0 \<le> vec_z inDir then
        Inr (isotropy_dispatch (isIso (getSampleSet brdf)) (brdf_fromXyz3 brdf) (brdf_fromXyz4 brdf)
               (getSpectrum3 ip (getSampleSet brdf)) (getSpectrum4 ip (getSampleSet brdf))
               inDir outDir)
      else Inl AssertionFailed)"
    by (simp add: Sampler_getSpectrum_Brdf_def isotropy_dispatch_def Let_def split: prod.splits)
  show "Sampler_getValue_Brdf isIso ip brdf inDir outDir w =
     (if 0 \<le> vec_z inDir then
        Inr (isotropy_dispatch (isIso (getSampleSet brdf)) (brdf_fromXyz3 brdf) (brdf_fromXyz4 brdf)
               (\<lambda>a0 a2 a3. getValue3 ip (getSampleSet brdf) a0 a2 a3 w)
               (\<lambda>a0 a1 a2 a3. getValue4 ip (getSampleSet brdf) a0 a1 a2 a3 w) inDir outDir)
      else Inl AssertionFailed)"
    by (simp add: Sampler_getValue_Brdf_def isotropy_dispatch_def Let_def split: prod.splits)
qed

theorem Sampler_isotropy_dispatch_witness:
  "Sampler_getSpectrum demo_isIsotropic demo_coordsys demo_interpolator True
       (Vec3 0 0 1) (Vec3 1 0 0) = Inr [1, 0, 1]
   \<and> Sampler_getSpectrum demo_isIsotropic demo_coordsys demo_interpolator False
       (Vec3 0 0 1) (Vec3 1 0 0) = Inr [1, 0, 0, 1]
   \<and> Sampler_getValue demo_isIsotropic demo_coordsys demo_interpolator True
       (Vec3 0 0 1) (Vec3 1 0 0) 0 = Inr 2
   \<and> Sampler_getSpectrum_Brdf demo_isIsotropic demo_interpolator (demo_brdf True)
       (Vec3 0 0 1) (Vec3 1 0 0) = Inr [1, 0, 1]
   \<and> Sampler_getValue_Brdf demo_isIsotropic demo_interpolator (demo_brdf False)
       (Vec3 0 0 1) (Vec3 1 0 0) 0 = Inr 2"
  using Sampler_isotropy_dispatch [of demo_isIsotropic demo_coordsys demo_interpolator True
          "Vec3 0 0 1" "Vec3 1 0 0" 0 "demo_brdf True"]
        Sampler_isotropy_dispatch [of demo_isIsotropic demo_coordsys demo_interpolator False
          "Vec3 0 0 1" "Vec3 1 0 0" 0 "demo_brdf False"]
  by (simp add: isotropy_dispatch_def demo_isIsotropic_def demo_coordsys_def
        demo_interpolator_def demo_brdf_def)

text \<open>
  C4. The four queries on a full sample set assert \<open>inDir.z() >= 0\<close>; the overload for a
  two-axis grid does not. At \<open>inDir = (0, 0, -1)\<close> the former fail the assertion, the
  latter returns a spectrum: the one interpolated at \<open>inTheta = acos(-1) = pi\<close> for an
  isotropic grid, and at the angles of the spherical conversion otherwise.
\<close>

theorem Sampler_getSpectrum_2D_unchecked:
  "Sampler_getSpectrum demo_isIsotropic demo_coordsys demo_interpolator True
       (Vec3 0 0 (- 1)) (Vec3 0 0 1) = Inl AssertionFailed
   \<and> Sampler_getValue demo_isIsotropic demo_coordsys demo_interpolator True
       (Vec3 0 0 (- 1)) (Vec3 0 0 1) 0 = Inl AssertionFailed
   \<and> Sampler_getSpectrum_Brdf demo_isIsotropic demo_interpolator (demo_brdf True)
       (Vec3 0 0 (- 1)) (Vec3 0 0 1) = Inl AssertionFailed
   \<and> Sampler_getValue_Brdf demo_isIsotropic demo_interpolator (demo_brdf True)
       (Vec3 0 0 (- 1)) (Vec3 0 0 1) 0 = Inl AssertionFailed
   \<and> Sampler_getSpectrum_2D demo_isIsotropic demo_sphFromXyz demo_interpolator2D True
       (Vec3 0 0 (- 1)) = [pi]
   \<and> Sampler_getSpectrum_2D demo_isIsotropic demo_sphFromXyz demo_interpolator2D False
       (Vec3 0 0 (- 1)) = [- 1, 0]"
  by (simp add: Sampler_getSpectrum_def Sampler_getValue_def Sampler_getSpectrum_Brdf_def
        Sampler_getValue_Brdf_def Sampler_getSpectrum_2D_def demo_isIsotropic_def
        demo_sphFromXyz_def demo_interpolator2D_def)

text \<open>
  C5. For a two-axis grid, \<open>getSpectrum\<close> interpolates at the single angle
  \<open>acos(inDir.z)\<close> when the grid is isotropic, so that the result depends on \<open>inDir\<close>
  through its z-component only and not on the spherical conversion; otherwise it
  interpolates at the polar and azimuthal angles given by the spherical conversion.
  \<open>SampleSet2D::getSpectrum\<close> is this query with the linear interpolator.
\<close>

theorem Sampler_getSpectrum_2D_angles:
  "(isIso ss2 \<longrightarrow>
      Sampler_getSpectrum_2D isIso sph ip ss2 inDir = getSpectrum1 ip ss2 (arccos (vec_z inDir))
      \<and> (\<forall>sph' d. vec_z d = vec_z inDir \<longrightarrow>
            Sampler_getSpectrum_2D isIso sph' ip ss2 d = Sampler_getSpectrum_2D isIso sph ip ss2 inDir))
   \<and> (\<not> isIso ss2 \<longrightarrow>
      Sampler_getSpectrum_2D isIso sph ip ss2 inDir
        = getSpectrum2 ip ss2 (fst (sph inDir)) (snd (sph inDir)))
   \<and> SampleSet2D_getSpectrum isIso2 sph lin grid inDir
        = Sampler_getSpectrum_2D isIso2 sph lin grid inDir"
  by (simp add: Sampler_getSpectrum_2D_def SampleSet2D_getSpectrum_def split: prod.splits)

theorem Sampler_getSpectrum_2D_angles_witness:
  "Sampler_getSpectrum_2D demo_isIsotropic demo_sphFromXyz demo_interpolator2D True
       (Vec3 0 0 1) = [0]
   \<and> Sampler_getSpectrum_2D demo_isIsotropic demo_sphFromXyz demo_interpolator2D False
       (Vec3 0 0 1) = [1, 0]"
  using Sampler_getSpectrum_2D_angles [of demo_isIsotropic True demo_sphFromXyz
          demo_interpolator2D "Vec3 0 0 1"]
        Sampler_getSpectrum_2D_angles [of demo_isIsotropic False demo_sphFromXyz
          demo_interpolator2D "Vec3 0 0 1"]
  by (simp add: demo_isIsotropic_def demo_sphFromXyz_def demo_interpolator2D_def)

section \<open>Properties of the Ward anisotropic model\<close>











end
